theory Spec2Isabelle
  imports Complex_Main
begin

section \<open>Lynchian Weather Dreams: the client-side pipeline\<close>

text \<open>
  JavaScript numbers are modelled as \<open>real\<close>, so the model is the exact-arithmetic
  reading of the source: the functions below add, subtract, multiply, divide, take absolute
  values and compare (the solar latitude also takes a sine). Rounding of IEEE doubles,
  infinities and the value NaN are outside the model.
\<close>

subsection \<open>types.ts\<close>

record Coordinates =
  lat :: real
  lng :: real

record WeatherData =
  temperature :: real
  windSpeed :: real
  conditionCode :: int

datatype AppState =
    IDLE
  | FETCHING_WEATHER
  | GENERATING_NARRATIVE
  | GENERATING_MEDIA
  | PLAYING
  | ERROR

text \<open>A decoded audio buffer is opaque to the pipeline; it is identified by a handle.\<close>

datatype AudioBuffer = AudioBuffer nat

record LynchContent =
  narrativeText :: string
  audioBuffer :: "AudioBuffer option"
  videoUrl :: "string option"
  imageUrl :: "string option"
  location :: Coordinates
  themeId :: string

subsection \<open>services/weatherService.ts: the terrain classifier\<close>

definition getTerrainDescription :: "real \<Rightarrow> real \<Rightarrow> string" where
  "getTerrainDescription la lo =
     (if \<bar>la\<bar> > 60 then ''frozen tundra''
      else if \<bar>la\<bar> < 20 \<and> \<bar>lo\<bar> < 30 then ''dense jungle''
      else if \<bar>la\<bar> > 20 \<and> \<bar>la\<bar> < 40 \<and> \<bar>lo\<bar> > 100 then ''lonely desert highway''
      else ''an industrial wasteland'')"

subsection \<open>App.tsx: the log buffer\<close>

text \<open>\<^verbatim>\<open>setLogs(prev => [msg, ...prev].slice(0, 5))\<close>\<close>

definition addLog :: "string \<Rightarrow> string list \<Rightarrow> string list" where
  "addLog msg prev = take 5 (msg # prev)"

text \<open>A sequence of appends, oldest message first, applied to a buffer.\<close>

definition addLogs :: "string list \<Rightarrow> string list \<Rightarrow> string list" where
  "addLogs msgs buf = foldl (\<lambda>b m. addLog m b) buf msgs"

subsection \<open>components/WorldMap.tsx: the coordinate mapper\<close>

text \<open>
  The bounding rectangle of the map element, as \<^verbatim>\<open>getBoundingClientRect()\<close> returns it.
  Only the four fields the handler reads are kept.
\<close>

record DOMRect =
  rect_left :: real
  rect_top :: real
  rect_width :: real
  rect_height :: real

text \<open>
  The arithmetic of \<^verbatim>\<open>handleClick\<close> on the offsets \<open>x\<close>, \<open>y\<close> inside a viewport of the given
  size (the specification calls it \<open>screenToGeo\<close>). A zero width or height is outside the
  model: JavaScript yields an infinity or NaN there, HOL's division yields 0.
\<close>

definition screenToGeo :: "real \<Rightarrow> real \<Rightarrow> real \<Rightarrow> real \<Rightarrow> Coordinates" where
  "screenToGeo x y width height =
     (let normX = x / width;
          normY = y / height;
          lo = (normX * 360) - 180;
          la = 90 - (normY * 180)
      in \<lparr>lat = la, lng = lo\<rparr>)"

text \<open>
  \<^verbatim>\<open>handleClick\<close>: the result is the coordinate handed to \<^verbatim>\<open>onSelectLocation\<close>, or \<open>None\<close>
  when the handler returns early (map disabled, or the element not mounted).
\<close>

definition handleClick :: "bool \<Rightarrow> DOMRect option \<Rightarrow> real \<Rightarrow> real \<Rightarrow> Coordinates option" where
  "handleClick disabled mapRef clientX clientY =
     (if disabled then None
      else case mapRef of
             None \<Rightarrow> None
           | Some rect \<Rightarrow>
               (let x = clientX - rect_left rect;
                    y = clientY - rect_top rect
                in Some (screenToGeo x y (rect_width rect) (rect_height rect))))"

text \<open>
  \<^verbatim>\<open>getPos\<close> (the specification's \<open>geoToScreenPercent\<close>): the two numbers that are printed
  in front of the \<^verbatim>\<open>%\<close> sign of the CSS \<^verbatim>\<open>left\<close> and \<^verbatim>\<open>top\<close> properties.
\<close>

record ScreenPercent =
  leftPct :: real
  topPct :: real

definition getPos :: "real \<Rightarrow> real \<Rightarrow> ScreenPercent" where
  "getPos la lo = \<lparr>leftPct = ((lo + 180) / 360) * 100, topPct = ((90 - la) / 180) * 100\<rparr>"

text \<open>
  A CSS percentage offset is resolved against the size of the containing box: the client
  position of a marker placed by \<^verbatim>\<open>getPos\<close> inside the rectangle \<open>rect\<close>.
\<close>

definition markerClientX :: "DOMRect \<Rightarrow> ScreenPercent \<Rightarrow> real" where
  "markerClientX rect p = rect_left rect + (leftPct p / 100) * rect_width rect"

definition markerClientY :: "DOMRect \<Rightarrow> ScreenPercent \<Rightarrow> real" where
  "markerClientY rect p = rect_top rect + (topPct p / 100) * rect_height rect"

subsection \<open>components/WorldMap.tsx: the solar position\<close>

text \<open>\<^verbatim>\<open>now.getUTCHours() + now.getUTCMinutes() / 60\<close>\<close>

definition utcHoursOf :: "nat \<Rightarrow> nat \<Rightarrow> real" where
  "utcHoursOf h m = real h + real m / 60"

text \<open>The two conditional wraps of \<^verbatim>\<open>sunLng\<close>, in the order the source applies them.\<close>

definition wrapLng :: "real \<Rightarrow> real" where
  "wrapLng s =
     (let s1 = (if s < - 180 then s + 360 else s);
          s2 = (if s1 > 180 then s1 - 360 else s1)
      in s2)"

definition sunLng :: "real \<Rightarrow> real" where
  "sunLng utcHours = wrapLng ((12 - utcHours) * 15)"

text \<open>
  \<^verbatim>\<open>calculateSunPosition\<close>, from the UTC hour and minute and the day of the year of the
  current instant (the clock itself is outside the model).
\<close>

definition calculateSunPosition :: "nat \<Rightarrow> nat \<Rightarrow> int \<Rightarrow> Coordinates" where
  "calculateSunPosition h m dayOfYear =
     \<lparr>lat = 23.44 * sin ((2 * pi / 365) * (real_of_int dayOfYear - 81)),
      lng = sunLng (utcHoursOf h m)\<rparr>"

subsection \<open>The pipeline's collaborators\<close>

text \<open>
  A theme, as far as the pipeline reads it (the colours and CSS classes are left out).
\<close>

record ThemeConfig =
  theme_id :: string
  systemInstruction :: string
  videoPromptTemplate :: "string \<Rightarrow> string \<Rightarrow> string"
  voiceName :: string

text \<open>
  How an awaited promise ends, as \<^verbatim>\<open>Promise.allSettled\<close> reports it: fulfilled with a value,
  or rejected with a reason (the message of the error).
\<close>

datatype 'a settled = Fulfilled 'a | Rejected string

datatype AudioContext = AudioContext nat

text \<open>
  The two conversions of a number to text that the log lines use: \<^verbatim>\<open>toFixed(2)\<close> and the
  conversion of a template literal. They belong to the JavaScript runtime and are parameters
  of the model.
\<close>

record NumberFormat =
  toFixed2 :: "real \<Rightarrow> string"
  numberToString :: "real \<Rightarrow> string"

text \<open>
  What the remote services and the browser answer during one stretch of execution: the
  weather service, the three generative services as \<^verbatim>\<open>App.tsx\<close> imports them, and the
  constructor of the audio context (\<open>Inl\<close> carries the message of a thrown error).
\<close>

record Gateways =
  gw_fetchWeatherData :: "Coordinates \<Rightarrow> WeatherData settled"
  gw_generateNarrative :: "WeatherData \<Rightarrow> ThemeConfig \<Rightarrow> string settled"
  gw_newAudioContext :: "string + AudioContext"
  gw_generateSpeech :: "string \<Rightarrow> ThemeConfig \<Rightarrow> AudioContext \<Rightarrow> AudioBuffer settled"
  gw_generateSceneryImage :: "string \<Rightarrow> string \<Rightarrow> ThemeConfig \<Rightarrow> string option settled"

subsection \<open>services/geminiService.ts: the image gateway\<close>

record InlineData =
  mimeType :: string
  inlineBytes :: string

text \<open>
  The loop over the parts of the first candidate: the first part that carries inline data
  becomes a data URL. A part is represented by its optional inline data.
\<close>

fun firstInlineImage :: "InlineData option list \<Rightarrow> string option" where
  "firstInlineImage [] = None"
| "firstInlineImage (None # parts) = firstInlineImage parts"
| "firstInlineImage (Some d # parts) = Some (''data:'' @ mimeType d @ '';base64,'' @ inlineBytes d)"

text \<open>
  \<^verbatim>\<open>generateSceneryImage\<close>, given the answer of the image model to a prompt. The call of the
  model is inside the \<^verbatim>\<open>try\<close>, so its rejection is turned into \<^verbatim>\<open>null\<close>.
\<close>

definition generateSceneryImage ::
  "(string \<Rightarrow> InlineData option list settled) \<Rightarrow> string \<Rightarrow> string \<Rightarrow> ThemeConfig \<Rightarrow> string option settled" where
  "generateSceneryImage generateContent narrative terrain theme =
     (let prompt = videoPromptTemplate theme (take 100 narrative) terrain
      in case generateContent prompt of
           Fulfilled parts \<Rightarrow> Fulfilled (firstInlineImage parts)
         | Rejected e \<Rightarrow> Fulfilled None)"

subsection \<open>App.tsx: the orchestrator\<close>

record App =
  appState :: AppState
  currentLocation :: "Coordinates option"
  content :: "LynchContent option"
  autoMode :: bool
  currentTheme :: ThemeConfig
  logs :: "string list"
  audioContextRef :: "AudioContext option"

definition initialApp :: "ThemeConfig \<Rightarrow> App" where
  "initialApp theme =
     \<lparr>appState = IDLE, currentLocation = None, content = None, autoMode = False,
      currentTheme = theme, logs = [], audioContextRef = None\<rparr>"

text \<open>
  \<^verbatim>\<open>processLocation\<close> is an asynchronous function with three \<^verbatim>\<open>await\<close>s. Each piece of its
  \<^verbatim>\<open>try\<close> block between two suspensions is one function below; it returns how the piece
  ended (an error thrown, a suspension at the next \<^verbatim>\<open>await\<close>, or the end of the block)
  and the state it leaves.
\<close>

datatype Stage =
    AwaitWeather
  | AwaitNarrative WeatherData
  | AwaitMedia string AudioContext

datatype Outcome = Thrown string | Awaiting Stage | Returned

text \<open>The degree sign of the log line, in UTF-8.\<close>

definition degreeSign :: string where
  "degreeSign = [CHR 0xC2, CHR 0xB0]"

definition processLocation_start :: "NumberFormat \<Rightarrow> Coordinates \<Rightarrow> App \<Rightarrow> Outcome \<times> App" where
  "processLocation_start fmt coords st =
     (Awaiting AwaitWeather,
      st\<lparr>appState := FETCHING_WEATHER,
         logs := addLog (''Connecting to coordinates: '' @ toFixed2 fmt (lat coords) @ '', ''
                           @ toFixed2 fmt (lng coords) @ ''...'') (logs st)\<rparr>)"

definition processLocation_weather :: "NumberFormat \<Rightarrow> WeatherData settled \<Rightarrow> App \<Rightarrow> Outcome \<times> App" where
  "processLocation_weather fmt result st =
     (case result of
        Rejected e \<Rightarrow> (Thrown ''WEATHER_FAILED'', st)
      | Fulfilled weather \<Rightarrow>
          (Awaiting (AwaitNarrative weather),
           st\<lparr>logs := addLog (''Conditions received. Temp: '' @ numberToString fmt (temperature weather)
                              @ degreeSign @ ''C.'') (logs st),
              appState := GENERATING_NARRATIVE\<rparr>))"

definition processLocation_narrative :: "(string + AudioContext) \<Rightarrow> string settled \<Rightarrow> App \<Rightarrow> Outcome \<times> App" where
  "processLocation_narrative newAudioContext result st =
     (case result of
        Rejected e \<Rightarrow> (Thrown ''NARRATIVE_FAILED'', st)
      | Fulfilled narrative \<Rightarrow>
          (let st1 = st\<lparr>logs := addLog ''Narrative synthesized.'' (logs st)\<rparr>;
               st2 = st1\<lparr>appState := GENERATING_MEDIA\<rparr>;
               st3 = st2\<lparr>logs := addLog ''Generating audiovisual hallucination...'' (logs st2)\<rparr>
           in case audioContextRef st3 of
                Some ctx \<Rightarrow> (Awaiting (AwaitMedia narrative ctx), st3)
              | None \<Rightarrow>
                  (case newAudioContext of
                     Inl e \<Rightarrow> (Thrown e, st3)
                   | Inr ctx \<Rightarrow> (Awaiting (AwaitMedia narrative ctx), st3\<lparr>audioContextRef := Some ctx\<rparr>))))"

definition processLocation_media ::
  "Coordinates \<Rightarrow> ThemeConfig \<Rightarrow> string \<Rightarrow> AudioBuffer settled \<Rightarrow> string option settled \<Rightarrow> App \<Rightarrow> Outcome \<times> App" where
  "processLocation_media coords theme narrative audioBufferResult imageResult st =
     (case audioBufferResult of
        Rejected reason \<Rightarrow> (Thrown ''AUDIO_FAILED'', st)
      | Fulfilled buf \<Rightarrow>
          (let finalImageUrl = (case imageResult of Fulfilled v \<Rightarrow> v | Rejected reason \<Rightarrow> None)
           in (Returned,
               st\<lparr>content := Some \<lparr>narrativeText = narrative, audioBuffer = Some buf, videoUrl = None,
                                    imageUrl = finalImageUrl, location = coords, themeId = theme_id theme\<rparr>,
                  appState := PLAYING,
                  logs := addLog ''Ready. Playing transmission.'' (logs st)\<rparr>)))"

text \<open>The \<^verbatim>\<open>catch\<close> block, from the message of the error it caught.\<close>

definition userMsg :: "string \<Rightarrow> string" where
  "userMsg message =
     (if message = ''WEATHER_FAILED'' then ''Error: Unable to establish telemetry link (Weather Service Down).''
      else if message = ''NARRATIVE_FAILED'' then ''Error: Neural synthesis failure (LLM Unresponsive).''
      else if message = ''AUDIO_FAILED'' then ''Error: Audio frequency corruption (TTS Failed).''
      else ''Error: System failure ('' @ (if message = [] then ''Unknown'' else message) @ '').'')"

definition processLocation_catch :: "string \<Rightarrow> App \<Rightarrow> App" where
  "processLocation_catch message st =
     st\<lparr>appState := ERROR, logs := addLog (userMsg message) (logs st)\<rparr>"

text \<open>
  A suspended call of \<^verbatim>\<open>processLocation\<close>: the coordinate and the theme its closure holds,
  and the \<^verbatim>\<open>await\<close> it is suspended at. \<open>resume\<close> runs it up to its next suspension with the
  answers of the gateways.
\<close>

record Run =
  run_coords :: Coordinates
  run_theme :: ThemeConfig
  run_stage :: Stage

definition resume :: "NumberFormat \<Rightarrow> Gateways \<Rightarrow> Run \<Rightarrow> App \<Rightarrow> Outcome \<times> App" where
  "resume fmt g r st =
     (case run_stage r of
        AwaitWeather \<Rightarrow>
          processLocation_weather fmt (gw_fetchWeatherData g (run_coords r)) st
      | AwaitNarrative weather \<Rightarrow>
          processLocation_narrative (gw_newAudioContext g)
            (gw_generateNarrative g weather (run_theme r)) st
      | AwaitMedia narrative ctx \<Rightarrow>
          (let terrain = getTerrainDescription (lat (run_coords r)) (lng (run_coords r))
           in processLocation_media (run_coords r) (run_theme r) narrative
                (gw_generateSpeech g narrative (run_theme r) ctx)
                (gw_generateSceneryImage g narrative terrain (run_theme r)) st))"

text \<open>
  One call of \<^verbatim>\<open>processLocation\<close> that nothing else interleaves with: the \<^verbatim>\<open>try\<close> block
  through its three suspensions, then the \<^verbatim>\<open>catch\<close> block if it threw.
\<close>

definition continue_with :: "(Stage \<Rightarrow> App \<Rightarrow> Outcome \<times> App) \<Rightarrow> Outcome \<times> App \<Rightarrow> Outcome \<times> App" where
  "continue_with k r = (case r of (Awaiting s, st) \<Rightarrow> k s st | (out, st) \<Rightarrow> (out, st))"

text \<open>The \<^verbatim>\<open>try\<close> block up to the suspension of the media step (its first two \<^verbatim>\<open>await\<close>s).\<close>

definition processLocation_before_media ::
  "NumberFormat \<Rightarrow> Gateways \<Rightarrow> ThemeConfig \<Rightarrow> Coordinates \<Rightarrow> App \<Rightarrow> Outcome \<times> App" where
  "processLocation_before_media fmt g theme coords st =
     (let k = (\<lambda>s. resume fmt g \<lparr>run_coords = coords, run_theme = theme, run_stage = s\<rparr>)
      in continue_with k (continue_with k (processLocation_start fmt coords st)))"

definition processLocation_try ::
  "NumberFormat \<Rightarrow> Gateways \<Rightarrow> ThemeConfig \<Rightarrow> Coordinates \<Rightarrow> App \<Rightarrow> Outcome \<times> App" where
  "processLocation_try fmt g theme coords st =
     (let k = (\<lambda>s. resume fmt g \<lparr>run_coords = coords, run_theme = theme, run_stage = s\<rparr>)
      in continue_with k (processLocation_before_media fmt g theme coords st))"

definition processLocation ::
  "NumberFormat \<Rightarrow> Gateways \<Rightarrow> ThemeConfig \<Rightarrow> Coordinates \<Rightarrow> App \<Rightarrow> App" where
  "processLocation fmt g theme coords st =
     (case processLocation_try fmt g theme coords st of
        (Thrown message, st') \<Rightarrow> processLocation_catch message st'
      | (out, st') \<Rightarrow> st')"

subsection \<open>App.tsx: calls on the event loop\<close>

text \<open>
  The application together with the calls of \<^verbatim>\<open>processLocation\<close> that are suspended at an
  \<^verbatim>\<open>await\<close> (the runs in flight), oldest first.
\<close>

record System =
  app :: App
  inFlight :: "Run list"

text \<open>
  Calling \<^verbatim>\<open>processLocation\<close>: its code up to the first \<^verbatim>\<open>await\<close> runs at once, the rest
  stays behind as a run in flight.
\<close>

definition finishPiece :: "Outcome \<times> App \<Rightarrow> Stage option \<times> App" where
  "finishPiece r =
     (case r of
        (Thrown message, st) \<Rightarrow> (None, processLocation_catch message st)
      | (Awaiting s, st) \<Rightarrow> (Some s, st)
      | (Returned, st) \<Rightarrow> (None, st))"

definition callProcessLocation :: "NumberFormat \<Rightarrow> ThemeConfig \<Rightarrow> Coordinates \<Rightarrow> System \<Rightarrow> System" where
  "callProcessLocation fmt theme coords sys =
     (case finishPiece (processLocation_start fmt coords (app sys)) of
        (Some s, st) \<Rightarrow>
          \<lparr>app = st,
           inFlight = inFlight sys @ [\<lparr>run_coords = coords, run_theme = theme, run_stage = s\<rparr>]\<rparr>
      | (None, st) \<Rightarrow> \<lparr>app = st, inFlight = inFlight sys\<rparr>)"

definition handleSelectLocation :: "NumberFormat \<Rightarrow> Coordinates \<Rightarrow> System \<Rightarrow> System" where
  "handleSelectLocation fmt coords sys =
     (if appState (app sys) \<noteq> IDLE \<and> appState (app sys) \<noteq> PLAYING \<and> appState (app sys) \<noteq> ERROR
      then sys
      else callProcessLocation fmt (currentTheme (app sys)) coords
             \<lparr>app = (app sys)\<lparr>currentLocation := Some coords\<rparr>, inFlight = inFlight sys\<rparr>)"

text \<open>
  \<^verbatim>\<open>runAutoLoop\<close>, called when auto mode is switched on and by the 60-second interval.
  \<open>random1\<close> and \<open>random2\<close> are the two values of \<^verbatim>\<open>Math.random()\<close>; \<open>theme\<close> is the theme
  held by the closure of the effect.
\<close>

definition runAutoLoop :: "NumberFormat \<Rightarrow> ThemeConfig \<Rightarrow> real \<Rightarrow> real \<Rightarrow> System \<Rightarrow> System" where
  "runAutoLoop fmt theme random1 random2 sys =
     (let la = (random1 * 160) - 80;
          lo = (random2 * 360) - 180
      in callProcessLocation fmt theme \<lparr>lat = la, lng = lo\<rparr> sys)"

text \<open>
  The promise awaited by the \<open>i\<close>-th run in flight settles with the answers \<open>g\<close>: the run
  continues to its next \<^verbatim>\<open>await\<close>, or ends.
\<close>

definition resumeRun :: "NumberFormat \<Rightarrow> Gateways \<Rightarrow> nat \<Rightarrow> System \<Rightarrow> System" where
  "resumeRun fmt g i sys =
     (if i < length (inFlight sys)
      then (let r = inFlight sys ! i
            in case finishPiece (resume fmt g r (app sys)) of
                 (Some s, st) \<Rightarrow> \<lparr>app = st, inFlight = (inFlight sys)[i := r\<lparr>run_stage := s\<rparr>]\<rparr>
               | (None, st) \<Rightarrow> \<lparr>app = st, inFlight = take i (inFlight sys) @ drop (Suc i) (inFlight sys)\<rparr>)
      else sys)"

subsection \<open>components/LynchPlayer.tsx: playback and the visualizer\<close>

datatype SourceNode = SourceNode nat

text \<open>
  The player: the two pieces of React state and refs that playback reads, the callbacks
  handed to \<^verbatim>\<open>requestAnimationFrame\<close> and not yet run, and the frames painted on the canvas
  so far (oldest first). A callback and a frame are named by the source node that
  \<^verbatim>\<open>visualize\<close> was called with, which is the node its analyser listens to.
\<close>

record Player =
  sourceNodeRef :: "SourceNode option"
  isPlaying :: bool
  animationFrames :: "SourceNode list"
  canvasFrames :: "SourceNode list"

definition initialPlayer :: Player where
  "initialPlayer = \<lparr>sourceNodeRef = None, isPlaying = False, animationFrames = [], canvasFrames = []\<rparr>"

text \<open>\<^verbatim>\<open>stopPlayback\<close>; stopping and disconnecting the node and pausing the video leave no trace here.\<close>

definition stopPlayback :: "Player \<Rightarrow> Player" where
  "stopPlayback p = p\<lparr>sourceNodeRef := None, isPlaying := False\<rparr>"

text \<open>One call of \<^verbatim>\<open>draw\<close> by the loop that \<^verbatim>\<open>visualize\<close> started for \<open>source\<close>.\<close>

definition draw :: "SourceNode \<Rightarrow> Player \<Rightarrow> Player" where
  "draw source p =
     (case sourceNodeRef p of
        None \<Rightarrow> p
      | Some current \<Rightarrow>
          p\<lparr>animationFrames := animationFrames p @ [source],
            canvasFrames := canvasFrames p @ [source]\<rparr>)"

definition visualize :: "bool \<Rightarrow> SourceNode \<Rightarrow> Player \<Rightarrow> Player" where
  "visualize hasCanvas source p = (if \<not> hasCanvas then p else draw source p)"

text \<open>
  \<^verbatim>\<open>startPlayback\<close>. \<open>renderedIsPlaying\<close> is the value of \<^verbatim>\<open>isPlaying\<close> in the render whose
  closure is running, \<open>buffer\<close> is \<^verbatim>\<open>content.audioBuffer\<close>, \<open>source\<close> is the node that
  \<^verbatim>\<open>createBufferSource()\<close> returns. The audio context is taken to exist and to be running.
\<close>

definition startPlayback :: "bool \<Rightarrow> bool \<Rightarrow> AudioBuffer option \<Rightarrow> SourceNode \<Rightarrow> Player \<Rightarrow> Player" where
  "startPlayback renderedIsPlaying hasCanvas buffer source p =
     (if renderedIsPlaying then p
      else case buffer of
             None \<Rightarrow> p
           | Some b \<Rightarrow> visualize hasCanvas source (p\<lparr>sourceNodeRef := Some source, isPlaying := True\<rparr>))"

text \<open>\<^verbatim>\<open>source.onended\<close>\<close>

definition onended :: "Player \<Rightarrow> Player" where
  "onended p = p\<lparr>isPlaying := False\<rparr>"

text \<open>
  A new \<^verbatim>\<open>content\<close> prop arrives: the cleanup of the first effect calls \<^verbatim>\<open>stopPlayback\<close>,
  then the autoplay effect calls \<^verbatim>\<open>startPlayback\<close> of the new render.
\<close>

definition contentChanged :: "bool \<Rightarrow> AudioBuffer option \<Rightarrow> SourceNode \<Rightarrow> Player \<Rightarrow> Player" where
  "contentChanged hasCanvas buffer source p =
     startPlayback (isPlaying p) hasCanvas buffer source (stopPlayback p)"

text \<open>The browser runs the callbacks requested since the last frame, in order.\<close>

definition animationFrame :: "Player \<Rightarrow> Player" where
  "animationFrame p = foldl (\<lambda>q source. draw source q) (p\<lparr>animationFrames := []\<rparr>) (animationFrames p)"

subsection \<open>Sample inputs\<close>

text \<open>A theme, a number format, a weather report and gateway answers used in the concrete runs below.\<close>

definition sampleTheme :: ThemeConfig where
  "sampleTheme =
     \<lparr>theme_id = ''LYNCH'', systemInstruction = ''You are David Lynch.'',
      videoPromptTemplate = (\<lambda>weather terrain. terrain @ '', '' @ weather),
      voiceName = ''Fenrir''\<rparr>"

definition sampleFormat :: NumberFormat where
  "sampleFormat = \<lparr>toFixed2 = (\<lambda>x. ''0.00''), numberToString = (\<lambda>x. ''0'')\<rparr>"

definition sampleWeather :: WeatherData where
  "sampleWeather = \<lparr>temperature = 21, windSpeed = 5, conditionCode = 3\<rparr>"

definition sampleGateways :: "AudioBuffer settled \<Rightarrow> string option settled \<Rightarrow> Gateways" where
  "sampleGateways speechResult imageResult =
     \<lparr>gw_fetchWeatherData = (\<lambda>coords. Fulfilled sampleWeather),
      gw_generateNarrative = (\<lambda>weather theme. Fulfilled ''The wind knows.''),
      gw_newAudioContext = Inr (AudioContext 0),
      gw_generateSpeech = (\<lambda>text theme ctx. speechResult),
      gw_generateSceneryImage = (\<lambda>narrative terrain theme. imageResult)\<rparr>"

section \<open>Properties\<close>

subsection \<open>Log buffer\<close>

lemma addLog_take: "addLog m (take 5 b) = take 5 (m # b)"
  by (simp add: addLog_def take_Cons')

lemma addLogs_take: "addLogs msgs (take 5 b) = take 5 (rev msgs @ b)"
proof (induction msgs arbitrary: b)
  case Nil
  show ?case by (simp add: addLogs_def)
next
  case (Cons m ms)
  have "addLogs (m # ms) (take 5 b) = addLogs ms (addLog m (take 5 b))"
    by (simp add: addLogs_def)
  also have "\<dots> = addLogs ms (take 5 (m # b))"
    by (simp only: addLog_take)
  also have "\<dots> = take 5 (rev ms @ m # b)"
    by (rule Cons.IH)
  finally show ?case by simp
qed

text \<open>
  C8. Whatever messages are appended to an empty buffer, the buffer holds the five most
  recent of them (all of them when there are fewer), most recent first, so never more than
  five entries; after seven appends the entries 7, 6, 5, 4, 3 remain in that order.
\<close>

theorem log_buffer_most_recent_five:
  "addLogs msgs [] = take 5 (rev msgs)
   \<and> length (addLogs msgs []) = min 5 (length msgs)
   \<and> addLogs [''1'', ''2'', ''3'', ''4'', ''5'', ''6'', ''7''] []
       = [''7'', ''6'', ''5'', ''4'', ''3'']"
proof -
  have eq: "addLogs ms [] = take 5 (rev ms)" for ms
    using addLogs_take [of ms "[]"] by simp
  have len: "length (addLogs msgs []) = min 5 (length msgs)"
    by (simp add: eq min.commute)
  have seven: "addLogs [''1'', ''2'', ''3'', ''4'', ''5'', ''6'', ''7''] []
       = [''7'', ''6'', ''5'', ''4'', ''3'']"
    by (simp add: eq)
  from eq len seven show ?thesis by blast
qed

subsection \<open>Terrain classifier\<close>

text \<open>
  C5. The terrain classifier is a total function that tries its rules in a fixed order and
  returns at the first match: tundra when \<open>|lat| > 60\<close>, else jungle when \<open>|lat| < 20\<close> and
  \<open>|lng| < 30\<close>, else desert highway when \<open>20 < |lat| < 40\<close> and \<open>|lng| > 100\<close>, else the
  generic wasteland label; with the five sample points of the specification.
\<close>

theorem terrain_priority_order:
  "getTerrainDescription la lo =
     (if \<bar>la\<bar> > 60 then ''frozen tundra''
      else if \<bar>la\<bar> < 20 \<and> \<bar>lo\<bar> < 30 then ''dense jungle''
      else if 20 < \<bar>la\<bar> \<and> \<bar>la\<bar> < 40 \<and> \<bar>lo\<bar> > 100 then ''lonely desert highway''
      else ''an industrial wasteland'')
   \<and> getTerrainDescription 70 0 = ''frozen tundra''
   \<and> getTerrainDescription 10 10 = ''dense jungle''
   \<and> getTerrainDescription 30 120 = ''lonely desert highway''
   \<and> getTerrainDescription 70 120 = ''frozen tundra''
   \<and> getTerrainDescription 0 150 = ''an industrial wasteland''"
  by (simp add: getTerrainDescription_def)

subsection \<open>Coordinate mapper\<close>

text \<open>
  C6. For every latitude in \<open>[-90, 90]\<close> and longitude in \<open>[-180, 180]\<close> and every viewport
  of positive width and height, placing a marker with the percentages of \<open>getPos\<close> and
  clicking exactly there gives back the original latitude and longitude, in exact
  arithmetic.
\<close>

theorem mapper_round_trip:
  assumes "- 90 \<le> la" and "la \<le> 90" and "- 180 \<le> lo" and "lo \<le> 180"
    and "0 < width" and "0 < height"
  shows "screenToGeo ((leftPct (getPos la lo) / 100) * width)
                     ((topPct (getPos la lo) / 100) * height) width height
           = \<lparr>lat = la, lng = lo\<rparr>
       \<and> handleClick False (Some \<lparr>rect_left = l, rect_top = t, rect_width = width, rect_height = height\<rparr>)
            (markerClientX \<lparr>rect_left = l, rect_top = t, rect_width = width, rect_height = height\<rparr> (getPos la lo))
            (markerClientY \<lparr>rect_left = l, rect_top = t, rect_width = width, rect_height = height\<rparr> (getPos la lo))
           = Some \<lparr>lat = la, lng = lo\<rparr>"
proof -
  from assms have w: "width \<noteq> 0" and h: "height \<noteq> 0" by simp_all
  have geo: "screenToGeo ((leftPct (getPos la lo) / 100) * width)
                     ((topPct (getPos la lo) / 100) * height) width height
           = \<lparr>lat = la, lng = lo\<rparr>"
    using w h by (simp add: screenToGeo_def getPos_def Let_def diff_divide_distrib add_divide_distrib)
  have click: "handleClick False (Some \<lparr>rect_left = l, rect_top = t, rect_width = width, rect_height = height\<rparr>)
            (markerClientX \<lparr>rect_left = l, rect_top = t, rect_width = width, rect_height = height\<rparr> (getPos la lo))
            (markerClientY \<lparr>rect_left = l, rect_top = t, rect_width = width, rect_height = height\<rparr> (getPos la lo))
           = Some \<lparr>lat = la, lng = lo\<rparr>"
    using geo by (simp add: handleClick_def markerClientX_def markerClientY_def Let_def)
  from geo click show ?thesis by blast
qed

theorem mapper_round_trip_witness:
  "screenToGeo ((leftPct (getPos 45 (- 120)) / 100) * 800)
               ((topPct (getPos 45 (- 120)) / 100) * 400) 800 400
     = \<lparr>lat = 45, lng = - 120\<rparr>
   \<and> handleClick False (Some \<lparr>rect_left = 10, rect_top = 20, rect_width = 800, rect_height = 400\<rparr>)
        (markerClientX \<lparr>rect_left = 10, rect_top = 20, rect_width = 800, rect_height = 400\<rparr> (getPos 45 (- 120)))
        (markerClientY \<lparr>rect_left = 10, rect_top = 20, rect_width = 800, rect_height = 400\<rparr> (getPos 45 (- 120)))
     = Some \<lparr>lat = 45, lng = - 120\<rparr>"
  using mapper_round_trip [of 45 "- 120" 800 400 10 20] by simp

subsection \<open>Solar longitude\<close>

text \<open>
  C7. For every \<open>utcHours\<close> in \<open>[0, 24)\<close> the subsolar longitude lies in \<open>[-180, 180]\<close>. The
  normalisation of any raw value \<open>s\<close> is \<open>s\<close> itself, \<open>s + 360\<close> or \<open>s - 360\<close> (one wrap at
  most), and it differs from \<open>s\<close> only when \<open>s\<close> is outside \<open>[-180, 180]\<close>. At
  \<open>utcHours = 12\<close> the longitude is 0 and at \<open>utcHours = 0\<close> it is 180.
\<close>

theorem sun_longitude_in_range:
  assumes "0 \<le> u" and "u < 24"
  shows "- 180 \<le> sunLng u \<and> sunLng u \<le> 180
       \<and> (wrapLng s = s \<or> wrapLng s = s + 360 \<or> wrapLng s = s - 360)
       \<and> (wrapLng s \<noteq> s \<longrightarrow> s < - 180 \<or> 180 < s)
       \<and> sunLng 12 = 0
       \<and> sunLng 0 = 180"
proof -
  from assms have raw: "- 180 < (12 - u) * 15" "(12 - u) * 15 \<le> 180" by simp_all
  then have range: "- 180 \<le> sunLng u \<and> sunLng u \<le> 180"
    by (simp add: sunLng_def wrapLng_def)
  have once: "wrapLng s = s \<or> wrapLng s = s + 360 \<or> wrapLng s = s - 360"
    by (simp add: wrapLng_def)
  have only: "wrapLng s \<noteq> s \<longrightarrow> s < - 180 \<or> 180 < s"
    by (simp add: wrapLng_def)
  have noon: "sunLng 12 = 0" by (simp add: sunLng_def wrapLng_def)
  have midnight: "sunLng 0 = 180" by (simp add: sunLng_def wrapLng_def)
  from range once only noon midnight show ?thesis by blast
qed

theorem sun_longitude_in_range_witness:
  "- 180 \<le> sunLng (47 / 2) \<and> sunLng (47 / 2) \<le> 180
   \<and> sunLng (47 / 2) = - 345 / 2
   \<and> wrapLng 200 = - 160 \<and> wrapLng (- 200) = 160"
proof -
  have a: "(0::real) \<le> 47 / 2" and b: "(47 / 2 :: real) < 24" by simp_all
  have v: "sunLng (47 / 2) = - 345 / 2" "wrapLng 200 = - 160" "wrapLng (- 200) = 160"
    by (simp_all add: sunLng_def wrapLng_def)
  from sun_longitude_in_range [OF a b, of 200] v show ?thesis by simp
qed

lemma utcHoursOf_range:
  assumes "h < 24" and "m < 60"
  shows "0 \<le> utcHoursOf h m \<and> utcHoursOf h m < 24"
proof -
  from assms have "real h \<le> 23" and "real m < 60" by simp_all
  then show ?thesis by (simp add: utcHoursOf_def)
qed

lemma calculateSunPosition_lng_range:
  assumes "h < 24" and "m < 60"
  shows "- 180 \<le> lng (calculateSunPosition h m d) \<and> lng (calculateSunPosition h m d) \<le> 180"
proof -
  from utcHoursOf_range [OF assms]
  have "- 180 < (12 - utcHoursOf h m) * 15" and "(12 - utcHoursOf h m) * 15 \<le> 180"
    by simp_all
  then show ?thesis
    by (simp add: calculateSunPosition_def sunLng_def wrapLng_def)
qed

subsection \<open>The orchestrator: pieces of a run\<close>

lemma continue_with_simps:
  "continue_with k (Awaiting s, st) = k s st"
  "continue_with k (Thrown m, st) = (Thrown m, st)"
  "continue_with k (Returned, st) = (Returned, st)"
  by (simp_all add: continue_with_def)

lemma start_content: "content (snd (processLocation_start fmt coords st)) = content st"
  by (simp add: processLocation_start_def)

lemma weather_content: "content (snd (processLocation_weather fmt r st)) = content st"
  by (simp add: processLocation_weather_def split: settled.splits)

lemma narrative_content: "content (snd (processLocation_narrative c r st)) = content st"
  by (simp add: processLocation_narrative_def Let_def split: settled.splits option.splits sum.splits)

lemma media_content:
  "fst (processLocation_media coords theme n a i st) \<noteq> Returned
   \<Longrightarrow> content (snd (processLocation_media coords theme n a i st)) = content st"
  by (simp add: processLocation_media_def Let_def split: settled.splits)

lemma resume_content:
  "fst (resume fmt g r st) \<noteq> Returned \<Longrightarrow> content (snd (resume fmt g r st)) = content st"
  by (cases "run_stage r") (simp_all add: resume_def Let_def weather_content narrative_content media_content)

lemma weather_stage:
  "processLocation_weather fmt r st = (Awaiting s, st') \<Longrightarrow> \<exists>w. s = AwaitNarrative w"
  by (auto simp add: processLocation_weather_def split: settled.splits)

lemma narrative_stage:
  "processLocation_narrative c r st = (Awaiting s, st') \<Longrightarrow> \<exists>n x. s = AwaitMedia n x"
  by (auto simp add: processLocation_narrative_def Let_def split: settled.splits option.splits sum.splits)

lemma media_stage:
  "fst (processLocation_media coords theme n a i st) \<noteq> Awaiting s"
  by (simp add: processLocation_media_def Let_def split: settled.splits)


lemma before_media_unfold:
  "processLocation_before_media fmt g theme coords st =
     (case gw_fetchWeatherData g coords of
        Rejected e \<Rightarrow> (Thrown ''WEATHER_FAILED'', snd (processLocation_start fmt coords st))
      | Fulfilled w \<Rightarrow>
          processLocation_narrative (gw_newAudioContext g) (gw_generateNarrative g w theme)
            (snd (processLocation_weather fmt (Fulfilled w) (snd (processLocation_start fmt coords st)))))"
  by (simp add: processLocation_before_media_def processLocation_start_def continue_with_simps
      resume_def processLocation_weather_def split: settled.splits)

lemma before_media_content:
  "content (snd (processLocation_before_media fmt g theme coords st)) = content st"
  by (simp add: before_media_unfold narrative_content weather_content start_content
      split: settled.splits)

lemma before_media_stage:
  "processLocation_before_media fmt g theme coords st = (Awaiting s, st')
   \<Longrightarrow> \<exists>n x. s = AwaitMedia n x"
  by (auto simp add: before_media_unfold split: settled.splits dest: narrative_stage)

lemma before_media_image:
  "processLocation_before_media fmt (g\<lparr>gw_generateSceneryImage := img\<rparr>) theme coords st
     = processLocation_before_media fmt g theme coords st"
  by (simp add: before_media_unfold split: settled.splits)

lemma try_at_media:
  assumes "processLocation_before_media fmt g theme coords st = (Awaiting (AwaitMedia n ctx), st')"
  shows "processLocation_try fmt g theme coords st =
           processLocation_media coords theme n (gw_generateSpeech g n theme ctx)
             (gw_generateSceneryImage g n (getTerrainDescription (lat coords) (lng coords)) theme) st'"
  using assms by (simp add: processLocation_try_def continue_with_simps resume_def)

lemma try_ends: "fst (processLocation_try fmt g theme coords st) \<noteq> Awaiting s"
proof (cases "processLocation_before_media fmt g theme coords st")
  case (Pair out st')
  show ?thesis
  proof (cases out)
    case (Awaiting s')
    with Pair obtain n x where "s' = AwaitMedia n x"
      using before_media_stage by blast
    with Pair Awaiting show ?thesis
      by (simp add: try_at_media media_stage)
  qed (simp_all add: Pair processLocation_try_def continue_with_simps)
qed

lemma try_content:
  assumes "fst (processLocation_try fmt g theme coords st) \<noteq> Returned"
  shows "content (snd (processLocation_try fmt g theme coords st)) = content st"
proof (cases "processLocation_before_media fmt g theme coords st")
  case (Pair out st')
  have c: "content st' = content st"
    using before_media_content [of fmt g theme coords st] Pair by simp
  show ?thesis
  proof (cases out)
    case (Awaiting s')
    with Pair obtain n x where s': "s' = AwaitMedia n x"
      using before_media_stage by blast
    from Pair Awaiting s' assms show ?thesis
      by (simp add: try_at_media media_content c)
  qed (simp_all add: Pair processLocation_try_def continue_with_simps c)
qed

lemma media_location:
  "currentLocation (snd (processLocation_media coords theme n a i st)) = currentLocation st"
  by (simp add: processLocation_media_def Let_def split: settled.splits)

lemma resume_location:
  "currentLocation (snd (resume fmt g r st)) = currentLocation st"
  by (cases "run_stage r")
    (simp_all add: resume_def Let_def processLocation_weather_def processLocation_narrative_def
      media_location split: settled.splits option.splits sum.splits)

lemma continue_with_location:
  assumes "\<And>s st. currentLocation (snd (k s st)) = currentLocation st"
  shows "currentLocation (snd (continue_with k r)) = currentLocation (snd r)"
proof (cases r)
  case (Pair out st)
  then show ?thesis
    by (cases out) (simp_all add: continue_with_simps assms)
qed

lemma try_location:
  "currentLocation (snd (processLocation_try fmt g theme coords st)) = currentLocation st"
  by (simp add: processLocation_try_def processLocation_before_media_def Let_def
      continue_with_location resume_location processLocation_start_def)

lemma catch_content: "content (processLocation_catch m st) = content st"
  by (simp add: processLocation_catch_def)

text \<open>
  C1. A run that has reached the media step, and whose speech generation settles rejected,
  throws \<open>AUDIO_FAILED\<close> and ends in the \<open>ERROR\<close> state with the audio failure message logged.
  The content bundle is the one the run started with (nothing is assembled), and the result
  is the same whatever the image gateway answers: the image is not looked at.
\<close>

theorem speech_failure_is_fatal:
  assumes "processLocation_before_media fmt g theme coords st = (Awaiting (AwaitMedia narrative ctx), st')"
    and "gw_generateSpeech g narrative theme ctx = Rejected reason"
  shows "processLocation_try fmt g theme coords st = (Thrown ''AUDIO_FAILED'', st')
       \<and> appState (processLocation fmt g theme coords st) = ERROR
       \<and> logs (processLocation fmt g theme coords st)
           = addLog ''Error: Audio frequency corruption (TTS Failed).'' (logs st')
       \<and> content (processLocation fmt g theme coords st) = content st
       \<and> processLocation fmt (g\<lparr>gw_generateSceneryImage := img\<rparr>) theme coords st
           = processLocation fmt g theme coords st"
proof -
  have t: "processLocation_try fmt g' theme coords st = (Thrown ''AUDIO_FAILED'', st')"
    if "processLocation_before_media fmt g' theme coords st = (Awaiting (AwaitMedia narrative ctx), st')"
      and "gw_generateSpeech g' narrative theme ctx = Rejected reason" for g'
    using that by (simp add: try_at_media processLocation_media_def)
  have t1: "processLocation_try fmt g theme coords st = (Thrown ''AUDIO_FAILED'', st')"
    using assms by (rule t)
  have t2: "processLocation_try fmt (g\<lparr>gw_generateSceneryImage := img\<rparr>) theme coords st
              = (Thrown ''AUDIO_FAILED'', st')"
    using assms by (intro t) (simp_all add: before_media_image)
  have c: "content st' = content st"
    using before_media_content [of fmt g theme coords st] assms(1) by simp
  have p: "processLocation fmt g theme coords st = processLocation_catch ''AUDIO_FAILED'' st'"
    by (simp add: processLocation_def t1)
  have p2: "processLocation fmt (g\<lparr>gw_generateSceneryImage := img\<rparr>) theme coords st
              = processLocation_catch ''AUDIO_FAILED'' st'"
    by (simp add: processLocation_def t2)
  have a: "appState (processLocation fmt g theme coords st) = ERROR"
    by (simp add: p processLocation_catch_def)
  have l: "logs (processLocation fmt g theme coords st)
           = addLog ''Error: Audio frequency corruption (TTS Failed).'' (logs st')"
    by (simp add: p processLocation_catch_def userMsg_def)
  have k: "content (processLocation fmt g theme coords st) = content st"
    by (simp add: p catch_content c)
  from t1 a l k p p2 show ?thesis by simp
qed

text \<open>
  C2. A run that has reached the media step, whose speech generation is fulfilled and whose
  image generation is rejected or yields \<open>null\<close>, does not fail: it ends in the \<open>PLAYING\<close>
  state with a content bundle whose image field is \<open>None\<close>. A rejection of the image model
  inside \<open>generateSceneryImage\<close> is itself turned into \<open>null\<close>.
\<close>

theorem image_failure_is_not_fatal:
  assumes "processLocation_before_media fmt g theme coords st = (Awaiting (AwaitMedia narrative ctx), st')"
    and "gw_generateSpeech g narrative theme ctx = Fulfilled buf"
    and "gw_generateSceneryImage g narrative (getTerrainDescription (lat coords) (lng coords)) theme
           \<in> {Rejected reason, Fulfilled None}"
  shows "fst (processLocation_try fmt g theme coords st) = Returned
       \<and> appState (processLocation fmt g theme coords st) = PLAYING
       \<and> content (processLocation fmt g theme coords st)
           = Some \<lparr>narrativeText = narrative, audioBuffer = Some buf, videoUrl = None,
                   imageUrl = None, location = coords, themeId = theme_id theme\<rparr>
       \<and> generateSceneryImage (\<lambda>prompt. Rejected reason) narrative
            (getTerrainDescription (lat coords) (lng coords)) theme = Fulfilled None"
proof -
  let ?c = "\<lparr>narrativeText = narrative, audioBuffer = Some buf, videoUrl = None,
             imageUrl = None, location = coords, themeId = theme_id theme\<rparr>"
  have t: "processLocation_try fmt g theme coords st =
             (Returned, st'\<lparr>content := Some ?c, appState := PLAYING,
                            logs := addLog ''Ready. Playing transmission.'' (logs st')\<rparr>)"
    using assms by (auto simp add: try_at_media processLocation_media_def)
  have r: "fst (processLocation_try fmt g theme coords st) = Returned"
    by (simp add: t)
  have a: "appState (processLocation fmt g theme coords st) = PLAYING"
    by (simp add: processLocation_def t)
  have k: "content (processLocation fmt g theme coords st) = Some ?c"
    by (simp add: processLocation_def t)
  have i: "generateSceneryImage (\<lambda>prompt. Rejected reason) narrative
            (getTerrainDescription (lat coords) (lng coords)) theme = Fulfilled None"
    by (simp add: generateSceneryImage_def)
  from r a k i show ?thesis by simp
qed

text \<open>
  C3. Selecting a coordinate while the state is \<open>FETCHING_WEATHER\<close>, \<open>GENERATING_NARRATIVE\<close>
  or \<open>GENERATING_MEDIA\<close> changes nothing: the pipeline state, the current selection, the
  content bundle and the log buffer stay as they are, and the runs in flight are the same
  (no new run begins).
\<close>

theorem busy_select_is_noop:
  assumes "appState (app sys) \<in> {FETCHING_WEATHER, GENERATING_NARRATIVE, GENERATING_MEDIA}"
  shows "handleSelectLocation fmt coords sys = sys
       \<and> appState (app (handleSelectLocation fmt coords sys)) = appState (app sys)
       \<and> currentLocation (app (handleSelectLocation fmt coords sys)) = currentLocation (app sys)
       \<and> content (app (handleSelectLocation fmt coords sys)) = content (app sys)
       \<and> logs (app (handleSelectLocation fmt coords sys)) = logs (app sys)
       \<and> inFlight (handleSelectLocation fmt coords sys) = inFlight sys"
proof -
  from assms have "handleSelectLocation fmt coords sys = sys"
    by (auto simp add: handleSelectLocation_def)
  then show ?thesis by simp
qed

text \<open>
  C10. The failure handler sets the state to \<open>ERROR\<close> and appends to the log, and touches
  nothing else: putting the old state and log back gives the old application state. A run
  that throws, at whichever step, ends in \<open>ERROR\<close> with the content bundle and the current
  selection it started with.
\<close>

theorem failure_keeps_content:
  "appState (processLocation_catch message st) = ERROR
   \<and> (processLocation_catch message st)\<lparr>appState := appState st, logs := logs st\<rparr> = st
   \<and> (fst (processLocation_try fmt g theme coords st) = Thrown message \<longrightarrow>
        appState (processLocation fmt g theme coords st) = ERROR
        \<and> content (processLocation fmt g theme coords st) = content st
        \<and> currentLocation (processLocation fmt g theme coords st) = currentLocation st)"
proof -
  have a: "appState (processLocation_catch message st) = ERROR"
    by (simp add: processLocation_catch_def)
  have b: "(processLocation_catch message st)\<lparr>appState := appState st, logs := logs st\<rparr> = st"
    by (simp add: processLocation_catch_def)
  have c: "appState (processLocation fmt g theme coords st) = ERROR
        \<and> content (processLocation fmt g theme coords st) = content st
        \<and> currentLocation (processLocation fmt g theme coords st) = currentLocation st"
    if th: "fst (processLocation_try fmt g theme coords st) = Thrown message"
  proof -
    obtain st' where t: "processLocation_try fmt g theme coords st = (Thrown message, st')"
      using th by (cases "processLocation_try fmt g theme coords st") simp
    have "content st' = content st"
      using try_content [of fmt g theme coords st] t by simp
    moreover have "currentLocation st' = currentLocation st"
      using try_location [of fmt g theme coords st] t by simp
    ultimately show ?thesis
      by (simp add: processLocation_def t processLocation_catch_def)
  qed
  from a b c show ?thesis by blast
qed

subsection \<open>Concrete runs\<close>

lemmas piece_defs =
  processLocation_before_media_def processLocation_start_def processLocation_weather_def
  processLocation_narrative_def continue_with_def resume_def initialApp_def sampleGateways_def
  sampleFormat_def addLog_def Let_def

theorem speech_failure_is_fatal_witness:
  "fst (processLocation_before_media sampleFormat
          (sampleGateways (Rejected ''No audio data returned'') (Fulfilled (Some ''data:image/png;base64,AAAA'')))
          sampleTheme \<lparr>lat = 10, lng = 10\<rparr> (initialApp sampleTheme))
     = Awaiting (AwaitMedia ''The wind knows.'' (AudioContext 0))
   \<and> appState (processLocation sampleFormat
          (sampleGateways (Rejected ''No audio data returned'') (Fulfilled (Some ''data:image/png;base64,AAAA'')))
          sampleTheme \<lparr>lat = 10, lng = 10\<rparr> (initialApp sampleTheme)) = ERROR
   \<and> content (processLocation sampleFormat
          (sampleGateways (Rejected ''No audio data returned'') (Fulfilled (Some ''data:image/png;base64,AAAA'')))
          sampleTheme \<lparr>lat = 10, lng = 10\<rparr> (initialApp sampleTheme)) = None"
proof -
  let ?g = "sampleGateways (Rejected ''No audio data returned'') (Fulfilled (Some ''data:image/png;base64,AAAA''))"
  let ?b = "processLocation_before_media sampleFormat ?g sampleTheme \<lparr>lat = 10, lng = 10\<rparr> (initialApp sampleTheme)"
  have f: "fst ?b = Awaiting (AwaitMedia ''The wind knows.'' (AudioContext 0))"
    by (simp add: piece_defs)
  then have h1: "?b = (Awaiting (AwaitMedia ''The wind knows.'' (AudioContext 0)), snd ?b)"
    by (simp add: prod_eq_iff)
  have h2: "gw_generateSpeech ?g ''The wind knows.'' sampleTheme (AudioContext 0) = Rejected ''No audio data returned''"
    by (simp add: sampleGateways_def)
  have i: "content (initialApp sampleTheme) = None"
    by (simp add: initialApp_def)
  from speech_failure_is_fatal [OF h1 h2] f i show ?thesis by simp
qed

theorem image_failure_is_not_fatal_witness:
  "fst (processLocation_before_media sampleFormat
          (sampleGateways (Fulfilled (AudioBuffer 7)) (Rejected ''quota''))
          sampleTheme \<lparr>lat = 10, lng = 10\<rparr> (initialApp sampleTheme))
     = Awaiting (AwaitMedia ''The wind knows.'' (AudioContext 0))
   \<and> appState (processLocation sampleFormat
          (sampleGateways (Fulfilled (AudioBuffer 7)) (Rejected ''quota''))
          sampleTheme \<lparr>lat = 10, lng = 10\<rparr> (initialApp sampleTheme)) = PLAYING
   \<and> content (processLocation sampleFormat
          (sampleGateways (Fulfilled (AudioBuffer 7)) (Rejected ''quota''))
          sampleTheme \<lparr>lat = 10, lng = 10\<rparr> (initialApp sampleTheme))
       = Some \<lparr>narrativeText = ''The wind knows.'', audioBuffer = Some (AudioBuffer 7), videoUrl = None,
               imageUrl = None, location = \<lparr>lat = 10, lng = 10\<rparr>, themeId = ''LYNCH''\<rparr>"
proof -
  let ?g = "sampleGateways (Fulfilled (AudioBuffer 7)) (Rejected ''quota'')"
  let ?b = "processLocation_before_media sampleFormat ?g sampleTheme \<lparr>lat = 10, lng = 10\<rparr> (initialApp sampleTheme)"
  have f: "fst ?b = Awaiting (AwaitMedia ''The wind knows.'' (AudioContext 0))"
    by (simp add: piece_defs)
  then have h1: "?b = (Awaiting (AwaitMedia ''The wind knows.'' (AudioContext 0)), snd ?b)"
    by (simp add: prod_eq_iff)
  have h2: "gw_generateSpeech ?g ''The wind knows.'' sampleTheme (AudioContext 0) = Fulfilled (AudioBuffer 7)"
    by (simp add: sampleGateways_def)
  have h3: "gw_generateSceneryImage ?g ''The wind knows.''
              (getTerrainDescription (lat \<lparr>lat = 10, lng = 10\<rparr>) (lng \<lparr>lat = 10, lng = 10\<rparr>)) sampleTheme
            \<in> {Rejected ''quota'', Fulfilled None}"
    by (simp add: sampleGateways_def)
  have t: "theme_id sampleTheme = ''LYNCH''"
    by (simp add: sampleTheme_def)
  from image_failure_is_not_fatal [OF h1 h2 h3] f t show ?thesis by simp
qed

theorem busy_select_is_noop_witness:
  "appState (app \<lparr>app = (initialApp sampleTheme)\<lparr>appState := GENERATING_NARRATIVE\<rparr>,
                  inFlight = [\<lparr>run_coords = \<lparr>lat = 10, lng = 10\<rparr>, run_theme = sampleTheme,
                               run_stage = AwaitNarrative sampleWeather\<rparr>]\<rparr>)
     \<in> {FETCHING_WEATHER, GENERATING_NARRATIVE, GENERATING_MEDIA}
   \<and> handleSelectLocation sampleFormat \<lparr>lat = 50, lng = 5\<rparr>
        \<lparr>app = (initialApp sampleTheme)\<lparr>appState := GENERATING_NARRATIVE\<rparr>,
         inFlight = [\<lparr>run_coords = \<lparr>lat = 10, lng = 10\<rparr>, run_theme = sampleTheme,
                      run_stage = AwaitNarrative sampleWeather\<rparr>]\<rparr>
     = \<lparr>app = (initialApp sampleTheme)\<lparr>appState := GENERATING_NARRATIVE\<rparr>,
        inFlight = [\<lparr>run_coords = \<lparr>lat = 10, lng = 10\<rparr>, run_theme = sampleTheme,
                     run_stage = AwaitNarrative sampleWeather\<rparr>]\<rparr>"
proof -
  let ?sys = "\<lparr>app = (initialApp sampleTheme)\<lparr>appState := GENERATING_NARRATIVE\<rparr>,
               inFlight = [\<lparr>run_coords = \<lparr>lat = 10, lng = 10\<rparr>, run_theme = sampleTheme,
                            run_stage = AwaitNarrative sampleWeather\<rparr>]\<rparr>"
  have h: "appState (app ?sys) \<in> {FETCHING_WEATHER, GENERATING_NARRATIVE, GENERATING_MEDIA}"
    by simp
  from busy_select_is_noop [OF h, of sampleFormat "\<lparr>lat = 50, lng = 5\<rparr>"] h show ?thesis
    by blast
qed

theorem failure_keeps_content_witness:
  "fst (processLocation_try sampleFormat
          ((sampleGateways (Fulfilled (AudioBuffer 7)) (Fulfilled None))
             \<lparr>gw_fetchWeatherData := (\<lambda>coords. Rejected ''Failed to fetch weather data'')\<rparr>)
          sampleTheme \<lparr>lat = 10, lng = 10\<rparr> (initialApp sampleTheme))
     = Thrown ''WEATHER_FAILED''
   \<and> appState (processLocation sampleFormat
          ((sampleGateways (Fulfilled (AudioBuffer 7)) (Fulfilled None))
             \<lparr>gw_fetchWeatherData := (\<lambda>coords. Rejected ''Failed to fetch weather data'')\<rparr>)
          sampleTheme \<lparr>lat = 10, lng = 10\<rparr> (initialApp sampleTheme)) = ERROR
   \<and> content (processLocation sampleFormat
          ((sampleGateways (Fulfilled (AudioBuffer 7)) (Fulfilled None))
             \<lparr>gw_fetchWeatherData := (\<lambda>coords. Rejected ''Failed to fetch weather data'')\<rparr>)
          sampleTheme \<lparr>lat = 10, lng = 10\<rparr> (initialApp sampleTheme)) = None"
proof -
  let ?g = "(sampleGateways (Fulfilled (AudioBuffer 7)) (Fulfilled None))
             \<lparr>gw_fetchWeatherData := (\<lambda>coords. Rejected ''Failed to fetch weather data'')\<rparr>"
  have f: "fst (processLocation_try sampleFormat ?g sampleTheme \<lparr>lat = 10, lng = 10\<rparr> (initialApp sampleTheme))
             = Thrown ''WEATHER_FAILED''"
    by (simp add: processLocation_try_def piece_defs)
  have i: "content (initialApp sampleTheme) = None"
    by (simp add: initialApp_def)
  from failure_keeps_content [of "''WEATHER_FAILED''" "initialApp sampleTheme" sampleFormat ?g sampleTheme
      "\<lparr>lat = 10, lng = 10\<rparr>"] f i
  show ?thesis by simp
qed

text \<open>
  C4 (the code departs from the claim). \<open>runAutoLoop\<close> calls \<open>processLocation\<close> directly,
  without the busy check of \<open>handleSelectLocation\<close>: in every state it sets the pipeline
  state to \<open>FETCHING_WEATHER\<close> and adds a run in flight. Concretely, after a click from the
  initial state and the arrival of the weather, the state is \<open>GENERATING_NARRATIVE\<close> with one
  run in flight; an auto-drift tick then changes the state and the log and leaves two runs in
  flight.
\<close>

theorem auto_drift_bypasses_busy_guard:
  "appState (app (runAutoLoop fmt theme random1 random2 sys)) = FETCHING_WEATHER
   \<and> length (inFlight (runAutoLoop fmt theme random1 random2 sys)) = Suc (length (inFlight sys))
   \<and> (let s1 = handleSelectLocation sampleFormat \<lparr>lat = 10, lng = 10\<rparr>
                  \<lparr>app = initialApp sampleTheme, inFlight = []\<rparr>;
           s2 = resumeRun sampleFormat (sampleGateways (Fulfilled (AudioBuffer 7)) (Fulfilled None)) 0 s1;
           s3 = runAutoLoop sampleFormat sampleTheme (1 / 2) (1 / 2) s2
       in appState (app s2) = GENERATING_NARRATIVE \<and> length (inFlight s2) = 1
          \<and> appState (app s3) = FETCHING_WEATHER \<and> length (inFlight s3) = 2
          \<and> logs (app s3) \<noteq> logs (app s2))"
proof -
  have a: "appState (app (runAutoLoop fmt theme random1 random2 sys)) = FETCHING_WEATHER"
    by (simp add: runAutoLoop_def callProcessLocation_def finishPiece_def processLocation_start_def Let_def)
  have b: "length (inFlight (runAutoLoop fmt theme random1 random2 sys)) = Suc (length (inFlight sys))"
    by (simp add: runAutoLoop_def callProcessLocation_def finishPiece_def processLocation_start_def Let_def)
  have c: "(let s1 = handleSelectLocation sampleFormat \<lparr>lat = 10, lng = 10\<rparr>
                  \<lparr>app = initialApp sampleTheme, inFlight = []\<rparr>;
           s2 = resumeRun sampleFormat (sampleGateways (Fulfilled (AudioBuffer 7)) (Fulfilled None)) 0 s1;
           s3 = runAutoLoop sampleFormat sampleTheme (1 / 2) (1 / 2) s2
       in appState (app s2) = GENERATING_NARRATIVE \<and> length (inFlight s2) = 1
          \<and> appState (app s3) = FETCHING_WEATHER \<and> length (inFlight s3) = 2
          \<and> logs (app s3) \<noteq> logs (app s2))"
    by (simp add: handleSelectLocation_def runAutoLoop_def resumeRun_def callProcessLocation_def
        finishPiece_def piece_defs)
  from a b c show ?thesis by blast
qed

text \<open>
  C9 (the code departs from the claim). \<open>draw\<close> only tests that some source node is current,
  not that it is the one its loop was started for. Playback of source 1 starts and ends; new
  content arrives and playback of source 2 starts in the same task; at the next animation
  frame the loop of source 1 paints again and is rescheduled, although source 2 is the
  current one.
\<close>

theorem replaced_loop_keeps_drawing:
  "(let p1 = startPlayback False True (Some (AudioBuffer 1)) (SourceNode 1) initialPlayer;
        p2 = onended (animationFrame p1);
        p3 = contentChanged True (Some (AudioBuffer 2)) (SourceNode 2) p2;
        p4 = animationFrame p3
    in sourceNodeRef p2 = Some (SourceNode 1)
       \<and> sourceNodeRef p3 = Some (SourceNode 2)
       \<and> canvasFrames p3 = [SourceNode 1, SourceNode 1, SourceNode 2]
       \<and> canvasFrames p4 = [SourceNode 1, SourceNode 1, SourceNode 2, SourceNode 1, SourceNode 2]
       \<and> animationFrames p4 = [SourceNode 1, SourceNode 2])"
  by (simp add: startPlayback_def visualize_def draw_def onended_def contentChanged_def
      stopPlayback_def animationFrame_def initialPlayer_def Let_def)

end
